theory Spec2Isabelle
  imports Main "HOL-Library.AList"
begin

section \<open>Python strings\<close>

text \<open>
  A Python \<open>str\<close> is a sequence of Unicode code points, so a string of the program is a
  list of code points here (not of bytes): \<open>len\<close>, \<open>startswith\<close>, \<open>strip\<close> and the regular
  expression engine all count code points. The characters the program names are
  \<open>U+7B2C\<close> (the ordinal prefix of a chapter heading), \<open>U+7AE0\<close> (the word "chapter"),
  and the three code points of the author label, the last being the full-width colon \<open>U+FF1A\<close>.
\<close>

type_synonym codepoint = nat
type_synonym ustring = "codepoint list"

definition ascii :: "string \<Rightarrow> ustring" where
  "ascii s = map of_char s"

definition NL :: codepoint where
  "NL = 10"

definition DI :: codepoint where
  "DI = 31532"

definition ZHANG :: codepoint where
  "ZHANG = 31456"

definition author_label :: ustring where
  "author_label = [20316, 32773, 65306]"

definition unknown_title :: ustring where
  "unknown_title = [26410, 30693, 26631, 39064]"

text \<open>
  \<open>str.isspace\<close> for one character, which is also what \<open>str.strip()\<close> without argument
  removes and what \<open>\s\<close> matches in a \<open>str\<close> pattern (CPython's \<open>_PyUnicode_IsWhitespace\<close>).
\<close>

definition isspace :: "codepoint \<Rightarrow> bool" where
  "isspace c \<longleftrightarrow>
     (9 \<le> c \<and> c \<le> 13) \<or> (28 \<le> c \<and> c \<le> 32) \<or> c = 133 \<or> c = 160 \<or> c = 5760 \<or>
     (8192 \<le> c \<and> c \<le> 8202) \<or> c = 8232 \<or> c = 8233 \<or> c = 8239 \<or> c = 8287 \<or> c = 12288"

text \<open>
  The decimal digits of Unicode (category \<open>Nd\<close>, version 14.0.0) come in runs of ten,
  digit zero first. \<open>\d\<close> in a \<open>str\<close> pattern matches each of them and \<open>int\<close> reads each
  with its decimal value, so \<open>int\<close> of a full-width or an Arabic-Indic numeral succeeds.
  The list holds the code point of the zero of every run.
\<close>

definition decimal_zeros :: "codepoint list" where
  "decimal_zeros =
    [48, 1632, 1776, 1984, 2406, 2534, 2662, 2790, 2918, 3046, 3174, 3302, 3430, 3558,
     3664, 3792, 3872, 4160, 4240, 6112, 6160, 6470, 6608, 6784, 6800, 6992, 7088, 7232,
     7248, 42528, 43216, 43264, 43472, 43504, 43600, 44016, 65296, 66720, 68912, 69734,
     69872, 69942, 70096, 70384, 70736, 70864, 71248, 71360, 71472, 71904, 72016, 72784,
     73040, 73120, 92768, 92864, 93008, 120782, 120792, 120802, 120812, 120822, 123200,
     123632, 125264, 130032]"

definition decimal :: "codepoint \<Rightarrow> nat option" where
  "decimal c = map_option (\<lambda>z. c - z) (find (\<lambda>z. z \<le> c \<and> c < z + 10) decimal_zeros)"

definition isdecimal :: "codepoint \<Rightarrow> bool" where
  "isdecimal c \<longleftrightarrow> decimal c \<noteq> None"

text \<open>
  \<open>int(s)\<close> for a string of decimal digits, the only strings the program passes to it
  (group 1 of the heading pattern). Python's integers are unbounded. A code point that is
  no digit counts as zero here; \<open>int\<close> raises on it, and the pattern never lets one through
  (lemma \<open>chapter_pattern_group1\<close>). The interpreter's configurable limit on the number of
  digits \<open>int\<close> accepts is taken to be switched off.
\<close>

definition int_of_digits :: "ustring \<Rightarrow> int" where
  "int_of_digits ds =
     foldl (\<lambda>a d. 10 * a + int (case decimal d of Some v \<Rightarrow> v | None \<Rightarrow> 0)) 0 ds"

text \<open>\<open>s.strip()\<close>: leading and trailing whitespace removed.\<close>

definition strip :: "ustring \<Rightarrow> ustring" where
  "strip s = rev (dropWhile isspace (rev (dropWhile isspace s)))"

text \<open>\<open>s.startswith(p)\<close>.\<close>

definition startswith :: "ustring \<Rightarrow> ustring \<Rightarrow> bool" where
  "startswith s p \<longleftrightarrow> take (length p) s = p"

text \<open>
  \<open>s.split(sep)\<close> for a separator of one character: the result always has at least one
  element, and \<open>''.split(sep)\<close> is \<open>['']\<close>.
\<close>

fun split_on :: "codepoint \<Rightarrow> ustring \<Rightarrow> ustring list" where
  "split_on sep [] = [[]]"
| "split_on sep (c # cs) =
     (if c = sep then [] # split_on sep cs
      else (let r = split_on sep cs in (c # hd r) # tl r))"

text \<open>
  \<open>s.replace(old, new)\<close>: every occurrence of \<open>old\<close>, found from the left without
  overlap, is replaced. With an empty \<open>old\<close> Python puts \<open>new\<close> before every character and
  at the end.
\<close>

fun replace_from :: "ustring \<Rightarrow> ustring \<Rightarrow> ustring \<Rightarrow> ustring" where
  "replace_from old new [] = []"
| "replace_from old new (c # cs) =
     (if old \<noteq> [] \<and> startswith (c # cs) old
      then new @ replace_from old new (drop (length old - 1) cs)
      else c # replace_from old new cs)"

definition replace_all :: "ustring \<Rightarrow> ustring \<Rightarrow> ustring \<Rightarrow> ustring" where
  "replace_all old new s =
     (if old = [] then new @ concat (map (\<lambda>c. c # new) s) else replace_from old new s)"

section \<open>The heading pattern\<close>

text \<open>
  \<open>chapter_pattern.match(s)\<close> for the pattern \<open>^<DI>(\d+)<ZHANG>\s*(.+)$\<close>, returning
  group 1 on a match and \<open>None\<close> otherwise.

  \<^item> \<open>(\d+)\<close> followed by the literal \<open>ZHANG\<close>, which is no digit: group 1 is the whole run
    of digits after \<open>DI\<close>, it is not empty, and \<open>ZHANG\<close> follows it.
  \<^item> \<open>(.+)$\<close>: \<open>.\<close> matches every character but the newline, and \<open>$\<close> matches at the end
    of the string or before a newline that ends it. So \<open>.+\<close> takes a non-empty run without
    newline, after which the string ends or ends in one newline.
  \<^item> \<open>\s*\<close> before it may give back what it took: some number of the leading whitespace
    characters, from none to all of them, is skipped before \<open>(.+)$\<close> is tried.
\<close>

definition dot_plus_end :: "ustring \<Rightarrow> bool" where
  "dot_plus_end t \<longleftrightarrow>
     takeWhile (\<lambda>c. c \<noteq> NL) t \<noteq> [] \<and>
     (dropWhile (\<lambda>c. c \<noteq> NL) t = [] \<or> dropWhile (\<lambda>c. c \<noteq> NL) t = [NL])"

definition spaces_dot_plus_end :: "ustring \<Rightarrow> bool" where
  "spaces_dot_plus_end t \<longleftrightarrow>
     list_ex (\<lambda>k. dot_plus_end (drop k t)) [0 ..< Suc (length (takeWhile isspace t))]"

definition chapter_pattern_match :: "ustring \<Rightarrow> ustring option" where
  "chapter_pattern_match s =
     (case s of
        [] \<Rightarrow> None
      | c # rest \<Rightarrow>
          if c \<noteq> DI then None
          else (let ds = takeWhile isdecimal rest in
                if ds = [] then None
                else (case dropWhile isdecimal rest of
                        [] \<Rightarrow> None
                      | z # tail \<Rightarrow>
                          if z = ZHANG \<and> spaces_dot_plus_end tail then Some ds else None)))"

section \<open>The novel parser\<close>

text \<open>
  The dictionaries \<open>parse_novel_file\<close> builds have fixed keys, so they are records. A chapter
  has the keys \<open>title\<close>, \<open>content\<close> and \<open>number\<close>, a novel \<open>title\<close>, \<open>author\<close>, \<open>chapters\<close> and
  \<open>content\<close>; the chapter's fields carry the prefix \<open>ch_\<close> where the names would clash.
\<close>

record novel_chapter =
  ch_title :: ustring
  ch_content :: ustring
  number :: int

record novel =
  title :: ustring
  author :: ustring
  chapters :: "novel_chapter list"
  content :: ustring

text \<open>
  The author loop over \<open>lines[:10]\<close>: the first line that starts with the label decides,
  and the loop breaks there. Without such a line the author stays \<open>''\<close>.
\<close>

fun find_author :: "ustring list \<Rightarrow> ustring" where
  "find_author [] = []"
| "find_author (line # ls) =
     (if startswith line author_label then strip (replace_all author_label [] line)
      else find_author ls)"

text \<open>
  One round of the chapter loop. The state is the list \<open>novel['chapters']\<close> and
  \<open>current_chapter\<close> (\<open>None\<close> before the first heading).
\<close>

definition append_current :: "novel_chapter list \<Rightarrow> novel_chapter option \<Rightarrow> novel_chapter list" where
  "append_current chs cur = (case cur of None \<Rightarrow> chs | Some c \<Rightarrow> chs @ [c])"

definition chapter_step ::
  "novel_chapter list \<times> novel_chapter option \<Rightarrow> ustring \<Rightarrow> novel_chapter list \<times> novel_chapter option" where
  "chapter_step st line =
     (case chapter_pattern_match (strip line) of
        Some ds \<Rightarrow>
          (append_current (fst st) (snd st),
           Some \<lparr>ch_title = strip line, ch_content = [], number = int_of_digits ds\<rparr>)
      | None \<Rightarrow>
          (case snd st of
             Some c \<Rightarrow> (fst st, Some (c\<lparr>ch_content := ch_content c @ line @ [NL]\<rparr>))
           | None \<Rightarrow> st))"

definition parse_chapters :: "ustring list \<Rightarrow> novel_chapter list" where
  "parse_chapters lines =
     (let st = foldl chapter_step ([], None) lines in append_current (fst st) (snd st))"

text \<open>The part of \<open>parse_novel_file\<close> after the file has been read into \<open>content\<close>.\<close>

definition parse_novel_text :: "ustring \<Rightarrow> novel" where
  "parse_novel_text raw =
     (let lines = split_on NL raw in
      \<lparr>title = (case lines of [] \<Rightarrow> unknown_title | l # _ \<Rightarrow> l),
       author = find_author (take 10 lines),
       chapters = parse_chapters lines,
       content = raw\<rparr>)"

section \<open>Reading the files of the library\<close>

text \<open>
  A call of the program either returns a value or raises; the exceptions that can reach
  the program's own handlers are the ones below.
\<close>

datatype py_exception = OSError | UnicodeDecodeError | JSONDecodeError | TypeError

datatype 'a result = Return 'a | Raise py_exception

text \<open>
  A file of the \<open>novel\<close> directory either cannot be opened or holds bytes. What a codec
  makes of the bytes belongs to the interpreter, so the two decoders are parameters of the
  model: \<open>None\<close> stands for \<open>UnicodeDecodeError\<close>, \<open>Some s\<close> for the text that
  \<open>f.read()\<close> returns.
\<close>

type_synonym bytes = "char list"

datatype txt_file = Unopenable | Bytes bytes




section \<open>The application state and the two stores\<close>

text \<open>
  What \<open>json.load\<close> returns. A Python \<open>float\<close> is kept abstract: the program stores and
  writes floats but the model never computes with one. A \<open>dict\<close> is an association list
  with the keys in insertion order, and \<open>d[k] = v\<close> is \<open>AList.update\<close>.
\<close>

typedecl pyfloat

datatype json =
    JNull
  | JBool bool
  | JInt int
  | JFloat pyfloat
  | JStr ustring
  | JList "json list"
  | JDict "(ustring \<times> json) list"

text \<open>
  A persisted document, as \<open>open\<close> and \<open>json.load\<close> find it: \<open>open\<close> raises when the file
  is missing, reading raises on bytes that are not UTF-8, the parser raises on text that
  is not JSON, and otherwise the value comes back. A document written by \<open>json.dump\<close> is
  taken to be read back by \<open>json.load\<close> as the value written.
\<close>

datatype document = Missing | Undecodable | Malformed | Document json

definition read_json :: "document \<Rightarrow> json result" where
  "read_json d =
     (case d of
        Missing \<Rightarrow> Raise OSError
      | Undecodable \<Rightarrow> Raise UnicodeDecodeError
      | Malformed \<Rightarrow> Raise JSONDecodeError
      | Document v \<Rightarrow> Return v)"

text \<open>
  Writing: \<open>open(..., 'w')\<close> raises when the file cannot be written; that attempt leaves
  the file as it was. A failure after the file has been truncated is not modelled.
\<close>

definition write_json :: "bool \<Rightarrow> json \<Rightarrow> document result" where
  "write_json writable v = (if writable then Return (Document v) else Raise OSError)"

datatype directory = NoDirectory | Directory "(ustring \<times> txt_file) list"

text \<open>
  The fields of \<open>NovelReaderApp\<close> that carry data, followed by the files the program
  touches. The widgets are left out: the methods below write to them and read nothing back.
\<close>

record reader =
  novels :: "(ustring \<times> novel) list"
  current_novel :: "novel option"
  current_chapter :: int
  reading_progress :: json
  settings :: json
  novel_dir :: directory
  settings_file :: document
  settings_writable :: bool
  progress_file :: document
  progress_writable :: bool


text \<open>\<open>load_settings\<close> and \<open>save_settings\<close>; both handlers are bare \<open>except\<close> clauses.\<close>

definition load_settings :: "reader \<Rightarrow> json result \<times> reader" where
  "load_settings s =
     (case read_json (settings_file s) of
        Return v \<Rightarrow> (Return v, s)
      | Raise e \<Rightarrow> (Return (JDict []), s))"

definition save_settings :: "reader \<Rightarrow> unit result \<times> reader" where
  "save_settings s =
     (case write_json (settings_writable s) (settings s) of
        Return d \<Rightarrow> (Return (), s\<lparr>settings_file := d\<rparr>)
      | Raise e \<Rightarrow> (Return (), s))"

definition load_reading_progress :: "reader \<Rightarrow> unit result \<times> reader" where
  "load_reading_progress s =
     (case read_json (progress_file s) of
        Return v \<Rightarrow> (Return (), s\<lparr>reading_progress := v\<rparr>)
      | Raise e \<Rightarrow> (Return (), s\<lparr>reading_progress := JDict []\<rparr>))"

text \<open>
  \<open>obj[key] = value\<close> with a string key, for a value that came from \<open>json.load\<close>: only a
  dictionary takes it, every other value raises \<open>TypeError\<close>.
\<close>

definition setitem :: "json \<Rightarrow> ustring \<Rightarrow> json \<Rightarrow> json result" where
  "setitem obj key v =
     (case obj of JDict kvs \<Rightarrow> Return (JDict (AList.update key v kvs)) | _ \<Rightarrow> Raise TypeError)"

definition progress_entry :: "int \<Rightarrow> ustring \<Rightarrow> json" where
  "progress_entry i now = JDict [(ascii ''chapter'', JInt i), (ascii ''timestamp'', JStr now)]"

text \<open>
  \<open>save_reading_progress\<close>; \<open>now\<close> is \<open>datetime.now().isoformat()\<close>. The item assignment
  stands outside the \<open>try\<close>, so its exception leaves the method; the write stands inside.
\<close>

definition save_reading_progress :: "ustring \<Rightarrow> reader \<Rightarrow> unit result \<times> reader" where
  "save_reading_progress now s =
     (case current_novel s of
        None \<Rightarrow> (Return (), s)
      | Some nv \<Rightarrow>
          (case setitem (reading_progress s) (title nv) (progress_entry (current_chapter s) now) of
             Raise e \<Rightarrow> (Raise e, s)
           | Return rp \<Rightarrow>
               (case write_json (progress_writable s) rp of
                  Return d \<Rightarrow> (Return (), s\<lparr>reading_progress := rp, progress_file := d\<rparr>)
                | Raise e \<Rightarrow> (Return (), s\<lparr>reading_progress := rp\<rparr>))))"

section \<open>Navigation\<close>

text \<open>
  \<open>load_chapter\<close> returns at once without a novel or with an index out of range. Otherwise
  it shows the chapter, sets \<open>current_chapter\<close> and saves the progress; an exception of the
  save leaves \<open>load_chapter\<close> with \<open>current_chapter\<close> already set.
\<close>

definition load_chapter :: "ustring \<Rightarrow> int \<Rightarrow> reader \<Rightarrow> unit result \<times> reader" where
  "load_chapter now chapter_index s =
     (case current_novel s of
        None \<Rightarrow> (Return (), s)
      | Some nv \<Rightarrow>
          if chapter_index < 0 \<or> chapter_index \<ge> int (length (chapters nv)) then (Return (), s)
          else save_reading_progress now (s\<lparr>current_chapter := chapter_index\<rparr>))"

definition prev_chapter :: "ustring \<Rightarrow> reader \<Rightarrow> unit result \<times> reader" where
  "prev_chapter now s =
     (if current_chapter s > 0 then load_chapter now (current_chapter s - 1) s
      else (Return (), s))"

definition next_chapter :: "ustring \<Rightarrow> reader \<Rightarrow> unit result \<times> reader" where
  "next_chapter now s =
     (case current_novel s of
        None \<Rightarrow> (Return (), s)
      | Some nv \<Rightarrow>
          if current_chapter s < int (length (chapters nv)) - 1
          then load_chapter now (current_chapter s + 1) s
          else (Return (), s))"

text \<open>
  \<open>on_novel_select\<close> with the title of the selected row: the first novel of the dictionary
  with that title becomes the current one, at chapter 0.
\<close>

definition on_novel_select :: "ustring \<Rightarrow> ustring \<Rightarrow> reader \<Rightarrow> unit result \<times> reader" where
  "on_novel_select now row_title s =
     (case find (\<lambda>nv. title nv = row_title) (map snd (novels s)) of
        None \<Rightarrow> (Return (), s)
      | Some nv \<Rightarrow> load_chapter now 0 (s\<lparr>current_novel := Some nv, current_chapter := 0\<rparr>))"

section \<open>Example inputs\<close>

text \<open>
  The example file: a title line, an author line and two chapters of one line each, every
  line ended by a newline. The headings read \<open>DI 1 ZHANG\<close> and \<open>DI 2 ZHANG\<close>, a space and
  a title of two characters.
\<close>

definition example_text :: ustring where
  "example_text =
     ascii ''Title'' @ NL # author_label @ ascii ''Alice'' @ NL #
     [DI, 49, ZHANG, 32, 24320, 31471] @ NL # ascii ''Hello'' @ NL #
     [DI, 50, ZHANG, 32, 36716, 25240] @ NL # ascii ''World'' @ [NL]"

definition example_chapter1 :: novel_chapter where
  "example_chapter1 =
     \<lparr>ch_title = [DI, 49, ZHANG, 32, 24320, 31471], ch_content = ascii ''Hello'' @ [NL], number = 1\<rparr>"

definition claimed_chapter2 :: novel_chapter where
  "claimed_chapter2 =
     \<lparr>ch_title = [DI, 50, ZHANG, 32, 36716, 25240], ch_content = ascii ''World'' @ [NL], number = 2\<rparr>"

definition example_chapter2 :: novel_chapter where
  "example_chapter2 =
     \<lparr>ch_title = [DI, 50, ZHANG, 32, 36716, 25240], ch_content = ascii ''World'' @ [NL, NL], number = 2\<rparr>"

text \<open>
  A file whose author line carries the label twice: \<open>T\<close>, a newline, then the label, \<open>A\<close>,
  the label again and \<open>B\<close>.
\<close>

definition repeated_label_text :: ustring where
  "repeated_label_text = ascii ''T'' @ NL # author_label @ ascii ''A'' @ author_label @ ascii ''B''"

text \<open>
  The author as the specification words it, for comparison with \<open>find_author\<close>: of the first
  line that begins with the label, the leading label alone is removed and the rest trimmed.
\<close>

fun find_author_prefix_only :: "ustring list \<Rightarrow> ustring" where
  "find_author_prefix_only [] = []"
| "find_author_prefix_only (line # ls) =
     (if startswith line author_label then strip (drop (length author_label) line)
      else find_author_prefix_only ls)"

text \<open>
  A text without heading: the line \<open>Intro\<close> and a line with \<open>DI\<close> and \<open>ZHANG\<close> but no
  digit between them. Then a text of two lines, the first a heading padded on the left, with
  the number 12 and the title \<open>x\<close> set directly after \<open>ZHANG\<close>, the second the bare
  \<open>DI 12 ZHANG\<close> followed by a space.
\<close>

definition preamble_text :: ustring where
  "preamble_text = ascii ''Intro'' @ NL # [DI, ZHANG, 32, 49]"


text \<open>
  The application before \<open>load_novels\<close> has run, when there is neither a \<open>novel\<close>
  directory nor a persisted document, then two decoders that each read one file only, a novel of three
  chapters with the title \<open>Y\<close>, and a progress mapping with an entry for the title \<open>X\<close>.
\<close>

definition example_reader :: reader where
  "example_reader =
     \<lparr>novels = [], current_novel = None, current_chapter = 0,
      reading_progress = JDict [], settings = JDict [],
      novel_dir = NoDirectory, settings_file = Missing, settings_writable = True,
      progress_file = Missing, progress_writable = True\<rparr>"



definition three_chapter_novel :: novel where
  "three_chapter_novel =
     \<lparr>title = ascii ''Y'', author = [],
      chapters = [example_chapter1, example_chapter2, example_chapter2], content = []\<rparr>"

definition stored_progress :: "(ustring \<times> json) list" where
  "stored_progress = [(ascii ''X'', progress_entry 2 (ascii ''2024-01-01T00:00:00''))]"

section \<open>Properties of the string functions and of the chapter loop\<close>

lemma split_on_no_sep: "sep \<notin> set xs \<Longrightarrow> split_on sep xs = [xs]"
  by (induction xs) auto

lemma split_on_line:
  "sep \<notin> set xs \<Longrightarrow> split_on sep (xs @ sep # rest) = xs # split_on sep rest"
  by (induction xs) auto

lemma example_lines:
  "split_on NL example_text =
     [ascii ''Title'', author_label @ ascii ''Alice'', [DI, 49, ZHANG, 32, 24320, 31471],
      ascii ''Hello'', [DI, 50, ZHANG, 32, 36716, 25240], ascii ''World'', []]"
proof -
  have a: "NL \<notin> set (ascii ''Title'')" "NL \<notin> set (author_label @ ascii ''Alice'')"
    "NL \<notin> set [DI, 49, ZHANG, 32, 24320, 31471]" "NL \<notin> set (ascii ''Hello'')"
    "NL \<notin> set [DI, 50, ZHANG, 32, 36716, 25240]" "NL \<notin> set (ascii ''World'')"
    by (simp_all add: ascii_def NL_def author_label_def DI_def ZHANG_def)
  show ?thesis
    unfolding example_text_def
    by (simp only: split_on_line a not_False_eq_True append_assoc[symmetric] split_on.simps)
qed

lemma chapter_step_heading:
  "chapter_pattern_match (strip line) = Some ds \<Longrightarrow>
   chapter_step (chs, cur) line =
     (append_current chs cur,
      Some \<lparr>ch_title = strip line, ch_content = [], number = int_of_digits ds\<rparr>)"
  by (simp add: chapter_step_def)

lemma chapter_step_other:
  "chapter_pattern_match (strip line) = None \<Longrightarrow>
   chapter_step (chs, cur) line =
     (chs, map_option (\<lambda>c. c\<lparr>ch_content := ch_content c @ line @ [NL]\<rparr>) cur)"
  by (cases cur) (simp_all add: chapter_step_def)

lemma decimal_ascii_1_2: "decimal 49 = Some 1" "decimal 50 = Some 2"
  by (simp_all add: decimal_def decimal_zeros_def)

lemma decimal_ZHANG: "decimal ZHANG = None"
  by (simp add: decimal_def decimal_zeros_def ZHANG_def)

lemma example_strip:
  "strip (ascii ''Title'') = ascii ''Title''"
  "strip (author_label @ ascii ''Alice'') = author_label @ ascii ''Alice''"
  "strip [DI, 49, ZHANG, 32, 24320, 31471] = [DI, 49, ZHANG, 32, 24320, 31471]"
  "strip (ascii ''Hello'') = ascii ''Hello''"
  "strip [DI, 50, ZHANG, 32, 36716, 25240] = [DI, 50, ZHANG, 32, 36716, 25240]"
  "strip (ascii ''World'') = ascii ''World''"
  "strip [] = []"
  by (simp_all add: strip_def isspace_def ascii_def author_label_def DI_def)

lemma example_match:
  "chapter_pattern_match (ascii ''Title'') = None"
  "chapter_pattern_match (author_label @ ascii ''Alice'') = None"
  "chapter_pattern_match [DI, 49, ZHANG, 32, 24320, 31471] = Some [49]"
  "chapter_pattern_match (ascii ''Hello'') = None"
  "chapter_pattern_match [DI, 50, ZHANG, 32, 36716, 25240] = Some [50]"
  "chapter_pattern_match (ascii ''World'') = None"
  "chapter_pattern_match [] = None"
  by (simp_all add: chapter_pattern_match_def ascii_def author_label_def DI_def
      isdecimal_def decimal_ascii_1_2 decimal_ZHANG spaces_dot_plus_end_def dot_plus_end_def
      isspace_def NL_def)

lemma example_numbers: "int_of_digits [49] = 1" "int_of_digits [50] = 2"
  by (simp_all add: int_of_digits_def decimal_ascii_1_2)

lemma example_chapters:
  "parse_chapters (split_on NL example_text) = [example_chapter1, example_chapter2]"
  by (simp add: parse_chapters_def example_lines chapter_step_heading chapter_step_other
      example_strip example_match example_numbers append_current_def
      example_chapter1_def example_chapter2_def)

lemma example_author: "find_author (take 10 (split_on NL example_text)) = ascii ''Alice''"
  by (simp add: example_lines startswith_def replace_all_def strip_def isspace_def
      ascii_def author_label_def)

lemma split_on_nonempty: "split_on sep s \<noteq> []"
  by (cases s) (simp_all add: Let_def)

lemma hd_split_on: "hd (split_on sep s) = takeWhile (\<lambda>c. c \<noteq> sep) s"
  by (induction s) (simp_all add: Let_def)

text \<open>
  The title is the text up to the first newline, for every text: \<open>split\<close> never returns
  an empty list, so the placeholder branch of the title is never taken.
\<close>

lemma parse_title_first_line: "title (parse_novel_text raw) = takeWhile (\<lambda>c. c \<noteq> NL) raw"
proof (cases "split_on NL raw")
  case Nil
  then show ?thesis by (simp add: split_on_nonempty)
next
  case (Cons l ls)
  then have "l = takeWhile (\<lambda>c. c \<noteq> NL) raw"
    using hd_split_on [of NL raw] by simp
  with Cons show ?thesis by (simp add: parse_novel_text_def)
qed

lemma repeated_label_lines:
  "split_on NL repeated_label_text =
     [ascii ''T'', author_label @ ascii ''A'' @ author_label @ ascii ''B'']"
proof -
  have a: "NL \<notin> set (ascii ''T'')"
    "NL \<notin> set (author_label @ ascii ''A'' @ author_label @ ascii ''B'')"
    by (simp_all add: ascii_def NL_def author_label_def)
  show ?thesis
    unfolding repeated_label_text_def
    by (simp only: split_on_line split_on_no_sep a not_False_eq_True)
qed

lemma split_on_append:
  "split_on sep (a @ sep # b) = split_on sep a @ split_on sep b"
  by (induction a) (simp_all add: Let_def split_on_nonempty)



lemma foldl_chapter_step_no_heading:
  "\<forall>l \<in> set ls. chapter_pattern_match (strip l) = None \<Longrightarrow>
   foldl chapter_step (chs, None) ls = (chs, None)"
  by (induction ls) (simp_all add: chapter_step_other)

lemma parse_chapters_no_heading:
  "\<forall>l \<in> set ls. chapter_pattern_match (strip l) = None \<Longrightarrow> parse_chapters ls = []"
  by (simp add: parse_chapters_def foldl_chapter_step_no_heading append_current_def)

lemma parse_chapters_skip_preamble:
  "\<forall>l \<in> set ls. chapter_pattern_match (strip l) = None \<Longrightarrow>
   parse_chapters (ls @ rest) = parse_chapters rest"
  by (simp add: parse_chapters_def foldl_chapter_step_no_heading)

lemma chapters_parse_novel_text:
  "chapters (parse_novel_text raw) = parse_chapters (split_on NL raw)"
  by (simp add: parse_novel_text_def Let_def)

lemma preamble_lines: "split_on NL preamble_text = [ascii ''Intro'', [DI, ZHANG, 32, 49]]"
proof -
  have a: "NL \<notin> set (ascii ''Intro'')" "NL \<notin> set [DI, ZHANG, 32, 49]"
    by (simp_all add: ascii_def NL_def DI_def ZHANG_def)
  show ?thesis
    unfolding preamble_text_def
    by (simp only: split_on_line split_on_no_sep a not_False_eq_True)
qed

lemma preamble_no_heading:
  "\<forall>l \<in> set (split_on NL preamble_text). chapter_pattern_match (strip l) = None"
  by (simp add: preamble_lines chapter_pattern_match_def strip_def isspace_def ascii_def
      DI_def ZHANG_def isdecimal_def decimal_ZHANG [unfolded ZHANG_def])








text \<open>What the pattern hands to \<open>int\<close> is a non-empty string of decimal digits.\<close>

lemma chapter_pattern_group1:
  "chapter_pattern_match s = Some ds \<Longrightarrow> ds \<noteq> [] \<and> list_all isdecimal ds"
  by (auto simp: chapter_pattern_match_def Let_def list_all_iff
      split: list.splits if_splits dest: set_takeWhileD)

lemma int_of_digits_snoc:
  "int_of_digits (ds @ [d]) =
     10 * int_of_digits ds + int (case decimal d of Some v \<Rightarrow> v | None \<Rightarrow> 0)"
  by (simp add: int_of_digits_def)









lemma save_reading_progress_position:
  "current_chapter (snd (save_reading_progress now s)) = current_chapter s \<and>
   current_novel (snd (save_reading_progress now s)) = current_novel s"
  by (simp add: save_reading_progress_def split: option.split result.split)

lemma load_chapter_in_range:
  assumes "current_novel s = Some nv" and "0 \<le> i" and "i < int (length (chapters nv))"
  shows "current_chapter (snd (load_chapter now i s)) = i \<and>
         current_novel (snd (load_chapter now i s)) = Some nv"
  using assms by (simp add: load_chapter_def save_reading_progress_position)

section \<open>The claims\<close>

text \<open>
  C1, as the program has it: parsing the example file gives the title \<open>Title\<close>, the author
  \<open>Alice\<close> and two chapters in order, numbered 1 and 2, each titled by its heading line.
  The first has the content \<open>Hello\<close> and a newline. The second has the content \<open>World\<close>
  and two newlines: the text ends in a newline, so \<open>split\<close> returns a last, empty line, and
  the loop appends it with a newline of its own.
\<close>

theorem C1_example_parse:
  "parse_novel_text example_text =
     \<lparr>title = ascii ''Title'', author = ascii ''Alice'',
      chapters = [example_chapter1, example_chapter2], content = example_text\<rparr>"
  by (simp add: parse_novel_text_def example_chapters example_author Let_def)
    (simp add: example_lines)

text \<open>
  C1 as stated, with \<open>World\<close> and one newline as the content of the second chapter, does
  not hold of the example file.
\<close>

theorem C1_example_counterexample:
  "chapters (parse_novel_text example_text) \<noteq> [example_chapter1, claimed_chapter2]"
  by (simp add: parse_novel_text_def example_chapters Let_def
      example_chapter2_def claimed_chapter2_def)

text \<open>
  C2 at a file whose author line carries the label twice. \<open>str.replace\<close> removes every
  occurrence of the label, so the program's author is \<open>AB\<close>; removing the leading label
  alone, as the claim says, leaves \<open>A\<close>, the label and \<open>B\<close>.
\<close>

theorem C2_every_label_removed:
  "author (parse_novel_text repeated_label_text) = ascii ''AB'' \<and>
   find_author_prefix_only (take 10 (split_on NL repeated_label_text))
     = ascii ''A'' @ author_label @ ascii ''B''"
  by (simp add: parse_novel_text_def repeated_label_lines startswith_def replace_all_def
      strip_def isspace_def ascii_def author_label_def)

text \<open>
  C3 at the empty text: \<open>''.split('\n')\<close> is \<open>['']\<close>, a non-empty list, so the title is the
  empty string and not the placeholder.
\<close>

theorem C3_empty_text_title:
  "title (parse_novel_text []) = [] \<and> title (parse_novel_text []) \<noteq> unknown_title"
  by (simp add: parse_novel_text_def unknown_title_def)

text \<open>
  C4: when no line of the text, trimmed, matches the heading pattern, the parse result has
  no chapter, whatever else the text holds. And lines before the first heading are attached
  to no chapter: a text that starts with lines none of which matches has the chapters of
  the text that follows those lines.
\<close>

theorem C4_no_heading_no_chapter:
  "((\<forall>l \<in> set (split_on NL raw). chapter_pattern_match (strip l) = None) \<longrightarrow>
      chapters (parse_novel_text raw) = []) \<and>
   ((\<forall>l \<in> set (split_on NL pre). chapter_pattern_match (strip l) = None) \<longrightarrow>
      chapters (parse_novel_text (pre @ NL # rest)) = chapters (parse_novel_text rest))"
  by (simp add: chapters_parse_novel_text parse_chapters_no_heading split_on_append
      parse_chapters_skip_preamble)

theorem C4_no_heading_no_chapter_witness:
  "split_on NL preamble_text = [ascii ''Intro'', [DI, ZHANG, 32, 49]] \<and>
   chapter_pattern_match (strip (ascii ''Intro'')) = None \<and>
   chapter_pattern_match (strip [DI, ZHANG, 32, 49]) = None \<and>
   chapters (parse_novel_text preamble_text) = [] \<and>
   chapters (parse_novel_text (preamble_text @ NL # example_text))
     = [example_chapter1, example_chapter2]"
proof -
  have h: "\<forall>l \<in> set (split_on NL preamble_text). chapter_pattern_match (strip l) = None"
    by (rule preamble_no_heading)
  then have m: "chapter_pattern_match (strip (ascii ''Intro'')) = None"
    "chapter_pattern_match (strip [DI, ZHANG, 32, 49]) = None"
    by (simp_all add: preamble_lines)
  have e: "chapters (parse_novel_text example_text) = [example_chapter1, example_chapter2]"
    by (simp add: chapters_parse_novel_text example_chapters)
  from C4_no_heading_no_chapter [of preamble_text preamble_text example_text] h
  have "chapters (parse_novel_text preamble_text) = []"
    and "chapters (parse_novel_text (preamble_text @ NL # example_text))
      = chapters (parse_novel_text example_text)"
    by blast+
  with m e show ?thesis by (simp add: preamble_lines)
qed



text \<open>
  C5: with a novel of \<open>n\<close> chapters selected and the current index \<open>i\<close> in the range from 0
  to \<open>n - 1\<close>, "previous" leaves the index at 0 when \<open>i = 0\<close> and makes it \<open>i - 1\<close>
  otherwise, "next" leaves it when \<open>i = n - 1\<close> and makes it \<open>i + 1\<close> otherwise. After either
  the index is in the range again and the same novel is selected, also when saving the
  progress raises.
\<close>

theorem C5_navigation_clamped:
  assumes "current_novel s = Some nv"
    and "0 \<le> current_chapter s" and "current_chapter s < int (length (chapters nv))"
  shows "current_chapter (snd (prev_chapter now s))
           = (if current_chapter s = 0 then 0 else current_chapter s - 1) \<and>
         current_chapter (snd (next_chapter now s))
           = (if current_chapter s = int (length (chapters nv)) - 1 then current_chapter s
              else current_chapter s + 1) \<and>
         0 \<le> current_chapter (snd (prev_chapter now s)) \<and>
         current_chapter (snd (prev_chapter now s)) < int (length (chapters nv)) \<and>
         0 \<le> current_chapter (snd (next_chapter now s)) \<and>
         current_chapter (snd (next_chapter now s)) < int (length (chapters nv)) \<and>
         current_novel (snd (prev_chapter now s)) = Some nv \<and>
         current_novel (snd (next_chapter now s)) = Some nv"
proof -
  have p: "current_chapter (snd (prev_chapter now s))
             = (if current_chapter s = 0 then 0 else current_chapter s - 1) \<and>
           current_novel (snd (prev_chapter now s)) = Some nv"
  proof (cases "current_chapter s > 0")
    case True
    with assms load_chapter_in_range [of s nv "current_chapter s - 1" now]
    show ?thesis by (simp add: prev_chapter_def)
  next
    case False
    with assms show ?thesis by (simp add: prev_chapter_def)
  qed
  have n: "current_chapter (snd (next_chapter now s))
             = (if current_chapter s = int (length (chapters nv)) - 1 then current_chapter s
                else current_chapter s + 1) \<and>
           current_novel (snd (next_chapter now s)) = Some nv"
  proof (cases "current_chapter s < int (length (chapters nv)) - 1")
    case True
    with assms load_chapter_in_range [of s nv "current_chapter s + 1" now]
    show ?thesis by (simp add: next_chapter_def)
  next
    case False
    with assms show ?thesis by (simp add: next_chapter_def)
  qed
  from p n assms show ?thesis by auto
qed

theorem C5_navigation_clamped_witness:
  "current_novel (example_reader\<lparr>current_novel := Some three_chapter_novel\<rparr>)
     = Some three_chapter_novel \<and>
   int (length (chapters three_chapter_novel)) = 3 \<and>
   current_chapter (snd (prev_chapter [] (example_reader
     \<lparr>current_novel := Some three_chapter_novel, current_chapter := 0\<rparr>))) = 0 \<and>
   current_chapter (snd (next_chapter [] (example_reader
     \<lparr>current_novel := Some three_chapter_novel, current_chapter := 0\<rparr>))) = 1 \<and>
   current_chapter (snd (prev_chapter [] (example_reader
     \<lparr>current_novel := Some three_chapter_novel, current_chapter := 1\<rparr>))) = 0 \<and>
   current_chapter (snd (next_chapter [] (example_reader
     \<lparr>current_novel := Some three_chapter_novel, current_chapter := 1\<rparr>))) = 2 \<and>
   current_chapter (snd (prev_chapter [] (example_reader
     \<lparr>current_novel := Some three_chapter_novel, current_chapter := 2\<rparr>))) = 1 \<and>
   current_chapter (snd (next_chapter [] (example_reader
     \<lparr>current_novel := Some three_chapter_novel, current_chapter := 2\<rparr>))) = 2"
  using C5_navigation_clamped [of "example_reader
      \<lparr>current_novel := Some three_chapter_novel, current_chapter := 0\<rparr>" three_chapter_novel "[]"]
    C5_navigation_clamped [of "example_reader
      \<lparr>current_novel := Some three_chapter_novel, current_chapter := 1\<rparr>" three_chapter_novel "[]"]
    C5_navigation_clamped [of "example_reader
      \<lparr>current_novel := Some three_chapter_novel, current_chapter := 2\<rparr>" three_chapter_novel "[]"]
  by (simp add: three_chapter_novel_def)

text \<open>
  C7: loading the settings returns a value and loading the progress returns, whatever the
  state of the persisted document. A document that is missing, not decodable or malformed
  gives the empty dictionary; a document holding a value gives that value.
\<close>

theorem C7_loads_never_raise:
  "(\<exists>v. fst (load_settings s) = Return v) \<and>
   (settings_file s = Document v \<longrightarrow> fst (load_settings s) = Return v) \<and>
   (settings_file s = Missing \<or> settings_file s = Undecodable \<or> settings_file s = Malformed
      \<longrightarrow> fst (load_settings s) = Return (JDict [])) \<and>
   fst (load_reading_progress s) = Return () \<and>
   (progress_file s = Document v \<longrightarrow> reading_progress (snd (load_reading_progress s)) = v) \<and>
   (progress_file s = Missing \<or> progress_file s = Undecodable \<or> progress_file s = Malformed
      \<longrightarrow> reading_progress (snd (load_reading_progress s)) = JDict [])"
  by (cases "settings_file s"; cases "progress_file s")
    (simp_all add: load_settings_def load_reading_progress_def read_json_def)

theorem C7_loads_never_raise_witness:
  "fst (load_settings (example_reader\<lparr>settings_file := Document (JDict stored_progress)\<rparr>))
     = Return (JDict stored_progress) \<and>
   fst (load_settings (example_reader\<lparr>settings_file := Missing\<rparr>)) = Return (JDict []) \<and>
   fst (load_settings (example_reader\<lparr>settings_file := Undecodable\<rparr>)) = Return (JDict []) \<and>
   fst (load_settings (example_reader\<lparr>settings_file := Malformed\<rparr>)) = Return (JDict []) \<and>
   reading_progress (snd (load_reading_progress
     (example_reader\<lparr>progress_file := Document (JDict stored_progress)\<rparr>)))
     = JDict stored_progress \<and>
   reading_progress (snd (load_reading_progress
     (example_reader\<lparr>reading_progress := JNull, progress_file := Malformed\<rparr>))) = JDict []"
  using C7_loads_never_raise [of "example_reader\<lparr>settings_file := Document (JDict stored_progress)\<rparr>"
      "JDict stored_progress"]
    C7_loads_never_raise [of "example_reader\<lparr>settings_file := Missing\<rparr>"]
    C7_loads_never_raise [of "example_reader\<lparr>settings_file := Undecodable\<rparr>"]
    C7_loads_never_raise [of "example_reader\<lparr>settings_file := Malformed\<rparr>"]
    C7_loads_never_raise [of "example_reader\<lparr>progress_file := Document (JDict stored_progress)\<rparr>"
      "JDict stored_progress"]
    C7_loads_never_raise [of "example_reader\<lparr>reading_progress := JNull, progress_file := Malformed\<rparr>"]
  by simp





end
